theory Spec2Isabelle
  imports Complex_Main "HOL-Library.Word" "HOL-Library.Monad_Syntax"
begin

unbundle bit_operations_syntax

section \<open>Data model\<close>

text \<open>
  The driver is the class \<open>SwitchProController\<close> of \<open>sammysswitchprodriver.cpp\<close>. Machine
  integers are words of their width; a \<open>double\<close> is modelled by the real number it denotes
  (the claims below concern the values 0 and 1, byte values divided by 255 and a difference
  of microsecond counts, not rounding). A device handle is a number; the null handle is
  \<open>None\<close>.
\<close>

type_synonym u8 = "8 word"
type_synonym u16 = "16 word"
type_synonym u32 = "32 word"
type_synonym u64 = "64 word"
type_synonym IOReturn = "32 word"
type_synonym IOHIDDeviceRef = nat

definition kIOReturnSuccess :: IOReturn where
  "kIOReturnSuccess = 0"

text \<open>\<open>struct ControllerState\<close>, fields in declaration order.\<close>

record ControllerState =
  leftStickX :: real
  leftStickY :: real
  rightStickX :: real
  rightStickY :: real
  triggerL :: real
  triggerR :: real
  buttons :: u16
  timestamp :: u64

text \<open>
  What the driver prints is kept as a list of lines. The texts are fixed strings around the
  values recorded here; the glyphs of the D-pad table of the plain driver
  (\<open>dpad_states\<close>: eight arrows and a dot) are the constructors of \<open>dpad\<close>.
\<close>

datatype button =
  Btn_A | Btn_B | Btn_X | Btn_Y | Btn_L | Btn_R | Btn_ZL | Btn_ZR
  | Btn_Minus | Btn_Plus | Btn_HOME | Btn_CAPTURE | Btn_L3 | Btn_R3

datatype dpad =
  DPad_Up | DPad_UpRight | DPad_Right | DPad_DownRight
  | DPad_Down | DPad_DownLeft | DPad_Left | DPad_UpLeft | DPad_Neutral

datatype line =
  Rumble_activated u32
  | LED_pattern_set u8
  | Buttons "button list"
  | Buttons_DPad "button list" dpad "(u8 \<times> u8) option" "(u8 \<times> u8) option"
  | Gesture_detected
  | Neural_processing_enabled
  | Neural_processing_disabled
  | Controller_connected
  | Controller_disconnected
  | Controller_initialized
  | Controller_init_failed IOReturn

text \<open>
  The host HID subsystem is a parameter: \<open>IOHIDDeviceSetReport\<close> gets the device, the
  report id and the bytes, and answers an \<open>IOReturn\<close> that may depend on the writes made
  before. The inference engine is a parameter too: it gets a feature vector and answers a
  label, which may depend on the vectors seen before.
\<close>

type_synonym hid_write = "IOHIDDeviceRef \<times> u8 \<times> u8 list"
type_synonym hid_host = "hid_write list \<Rightarrow> hid_write \<Rightarrow> IOReturn"
type_synonym neural_engine = "real list list \<Rightarrow> real list \<Rightarrow> string"

text \<open>
  The members of \<open>SwitchProController\<close> that the modelled functions read or write, the
  function-local \<open>static uint64_t lastTimestamp\<close> of \<open>createFeatureVector\<close>, and three
  traces of effects: the reports written to the host, the vectors handed to the inference
  engine, and the lines printed. \<open>processingThread\<close> is whether the worker thread is
  joinable. The head of \<open>featureQueue\<close> is the front of the \<open>std::queue\<close>.
\<close>

record driver =
  connectedDevice :: "IOHIDDeviceRef option"
  processingEnabled :: bool
  processingThread :: bool
  currentState :: ControllerState
  featureQueue :: "real list list"
  lastTimestamp :: u64
  hostWrites :: "hid_write list"
  classified :: "real list list"
  console :: "line list"

text \<open>
  The constructor: no device, processing off, sticks centred, buttons and timestamp zero.
  The static \<open>lastTimestamp\<close> belongs to the process and not to the object: its
  initialiser gives it 0 once, and the constructor leaves it as it finds it, so the value it
  holds when the controller is constructed is an argument.
\<close>

definition lastTimestamp_initial :: u64 where
  "lastTimestamp_initial = 0"

definition SwitchProController :: "u64 \<Rightarrow> driver" where
  "SwitchProController lastTs =
     \<lparr> connectedDevice = None,
       processingEnabled = False,
       processingThread = False,
       currentState =
         \<lparr> leftStickX = 0.5, leftStickY = 0.5, rightStickX = 0.5, rightStickY = 0.5,
           triggerL = 0, triggerR = 0, buttons = 0, timestamp = 0 \<rparr>,
       featureQueue = [],
       lastTimestamp = lastTs,
       hostWrites = [],
       classified = [],
       console = [] \<rparr>"

section \<open>Output reports\<close>

text \<open>
  \<open>IOHIDDeviceSetReport(device, kIOHIDReportTypeOutput, reportID, data, sizeof data)\<close>:
  the write is recorded and the host's answer returned.
\<close>

definition IOHIDDeviceSetReport ::
  "hid_host \<Rightarrow> IOHIDDeviceRef \<Rightarrow> u8 \<Rightarrow> u8 list \<Rightarrow> driver \<Rightarrow> IOReturn \<times> driver" where
  "IOHIDDeviceSetReport host device reportID data d =
     (host (hostWrites d) (device, reportID, data),
      d\<lparr>hostWrites := hostWrites d @ [(device, reportID, data)]\<rparr>)"

text \<open>The array \<open>rumbleData\<close> of \<open>rumble\<close>, element by element.\<close>

definition rumbleData :: "u16 \<Rightarrow> u16 \<Rightarrow> u8 list" where
  "rumbleData lowFreq highFreq =
     [0x10, 0x80, 0x00, 0x00, 0x00,
      ucast (highFreq AND 0xFF), ucast (drop_bit 8 highFreq),
      ucast (lowFreq AND 0xFF), ucast (drop_bit 8 lowFreq),
      0x00, 0x00, 0x00, 0x00, 0x00]"

definition rumble :: "hid_host \<Rightarrow> u16 \<Rightarrow> u16 \<Rightarrow> u32 \<Rightarrow> driver \<Rightarrow> driver" where
  "rumble host lowFreq highFreq duration_ms d =
     (case connectedDevice d of
        None \<Rightarrow> d
      | Some device \<Rightarrow>
          (case IOHIDDeviceSetReport host device 0x10 (rumbleData lowFreq highFreq) d of
             (result, d') \<Rightarrow>
               if result = kIOReturnSuccess
               then d'\<lparr>console := console d' @ [Rumble_activated duration_ms]\<rparr>
               else d'))"

text \<open>The array \<open>ledData\<close> of \<open>setLEDPattern\<close>.\<close>

definition ledData :: "u8 \<Rightarrow> u8 list" where
  "ledData pattern = [0x01, pattern AND 0x0F]"

definition setLEDPattern :: "hid_host \<Rightarrow> u8 \<Rightarrow> driver \<Rightarrow> driver" where
  "setLEDPattern host pattern d =
     (case connectedDevice d of
        None \<Rightarrow> d
      | Some device \<Rightarrow>
          (case IOHIDDeviceSetReport host device 0x01 (ledData pattern) d of
             (result, d') \<Rightarrow>
               if result = kIOReturnSuccess
               then d'\<lparr>console := console d' @ [LED_pattern_set pattern]\<rparr>
               else d'))"

section \<open>Feature pipeline\<close>

text \<open>
  \<open>createFeatureVector\<close> takes the state and the value of its static \<open>lastTimestamp\<close>, and
  returns the vector with the new value of the static. The subtraction is the one of
  \<open>uint64_t\<close>; its result is converted to \<open>double\<close> and divided by a million.
\<close>

definition flag :: "u16 \<Rightarrow> u16 \<Rightarrow> real" where
  "flag b m = (if b AND m \<noteq> 0 then 1 else 0)"

definition createFeatureVector :: "ControllerState \<Rightarrow> u64 \<Rightarrow> real list \<times> u64" where
  "createFeatureVector state lastTs =
     (let leftStickMagnitude =
            sqrt (leftStickX state * leftStickX state + leftStickY state * leftStickY state);
          rightStickMagnitude =
            sqrt (rightStickX state * rightStickX state + rightStickY state * rightStickY state);
          timeDelta =
            (if lastTs > 0 then real (unat (timestamp state - lastTs)) / 1000000 else 0)
      in ([leftStickX state, leftStickY state, rightStickX state, rightStickY state,
           triggerL state, triggerR state,
           flag (buttons state) 0x0001, flag (buttons state) 0x0002,
           flag (buttons state) 0x0004, flag (buttons state) 0x0008,
           flag (buttons state) 0x0010, flag (buttons state) 0x0020,
           flag (buttons state) 0x0040, flag (buttons state) 0x0080,
           leftStickMagnitude, rightStickMagnitude,
           timeDelta],
          timestamp state))"

text \<open>
  \<open>extractFeatures\<close>: nothing when processing is off; otherwise the vector is pushed at the
  back and, when the queue then holds more than 100, the front is popped.
\<close>

definition extractFeatures :: "ControllerState \<Rightarrow> driver \<Rightarrow> driver" where
  "extractFeatures state d =
     (if \<not> processingEnabled d then d
      else
        (case createFeatureVector state (lastTimestamp d) of
           (features, lastTs') \<Rightarrow>
             (let q = featureQueue d @ [features]
              in d\<lparr>featureQueue := (if length q > 100 then tl q else q),
                    lastTimestamp := lastTs'\<rparr>)))"

text \<open>
  \<open>NeuralEngineWrapper::processControllerFeatures\<close>: the call is recorded and the engine's
  label returned. Compiled as C++ (no \<open>__OBJC__\<close>) the engine is \<open>objc_unavailable\<close>.
\<close>

definition processControllerFeatures ::
  "neural_engine \<Rightarrow> real list \<Rightarrow> driver \<Rightarrow> string \<times> driver" where
  "processControllerFeatures engine features d =
     (engine (classified d) features, d\<lparr>classified := classified d @ [features]\<rparr>)"

definition objc_unavailable :: neural_engine where
  "objc_unavailable seen features = ''OBJC_UNAVAILABLE''"

text \<open>
  One pass through the body of the \<open>while\<close> loop of \<open>neuralProcessingLoop\<close> (the sleep at
  its end apart): \<open>features\<close> starts empty, takes the front of the queue when there is
  one, and is processed when it is not empty.
\<close>

definition neuralProcessingStep :: "hid_host \<Rightarrow> neural_engine \<Rightarrow> driver \<Rightarrow> driver" where
  "neuralProcessingStep host engine d =
     (case (case featureQueue d of
              [] \<Rightarrow> ([], d)
            | front # rest \<Rightarrow> (front, d\<lparr>featureQueue := rest\<rparr>)) of
        (features, d1) \<Rightarrow>
          if features \<noteq> [] then
            (case processControllerFeatures engine features d1 of
               (result, d2) \<Rightarrow>
                 if result \<noteq> ''NO_DATA'' \<and> result \<noteq> ''PROCESSOR_NOT_READY'' then
                   (if result = ''GESTURE_DETECTED'' then
                      (let d3 = rumble host 0x30 0x30 50 d2
                       in d3\<lparr>console := console d3 @ [Gesture_detected]\<rparr>)
                    else d2)
                 else d2)
          else d1)"

text \<open>
  \<open>enableNeuralProcessing\<close>: the flag is stored; the worker thread is started when it is
  not joinable, joined when it is.
\<close>

definition enableNeuralProcessing :: "bool \<Rightarrow> driver \<Rightarrow> driver" where
  "enableNeuralProcessing enable d =
     (let d1 = d\<lparr>processingEnabled := enable\<rparr>
      in if enable \<and> \<not> processingThread d1 then
           d1\<lparr>processingThread := True,
              console := console d1 @ [Neural_processing_enabled]\<rparr>
         else if \<not> enable \<and> processingThread d1 then
           d1\<lparr>processingThread := False,
              console := console d1 @ [Neural_processing_disabled]\<rparr>
         else d1)"

section \<open>Input reports\<close>

text \<open>
  \<open>report[i]\<close>: the report is a pointer and a length given apart. The model takes the
  bytes that can be read at the pointer as a list; reading past them is undefined in C++
  and \<open>None\<close> here.
\<close>

definition rd :: "u8 list \<Rightarrow> nat \<Rightarrow> u8 option" where
  "rd report i = (if i < length report then Some (report ! i) else None)"

text \<open>\<open>(b & m) != 0\<close>, and \<open>(b & m) ? v : 0\<close>.\<close>

definition pressed :: "u8 \<Rightarrow> u8 \<Rightarrow> bool" where
  "pressed b m = (b AND m \<noteq> 0)"

definition bit_of :: "u8 \<Rightarrow> u8 \<Rightarrow> u16 \<Rightarrow> u16" where
  "bit_of b m v = (if b AND m \<noteq> 0 then v else 0)"

text \<open>The eight statements under "Update button state" of \<open>processInputReport\<close>.\<close>

definition update_buttons :: "u8 \<Rightarrow> u8 \<Rightarrow> u16" where
  "update_buttons buttons1 buttons3 =
     0 OR bit_of buttons1 0x01 0x0001
       OR bit_of buttons1 0x02 0x0002
       OR bit_of buttons1 0x04 0x0004
       OR bit_of buttons1 0x08 0x0008
       OR bit_of buttons3 0x20 0x0010
       OR bit_of buttons1 0x40 0x0020
       OR bit_of buttons3 0x40 0x0040
       OR bit_of buttons1 0x80 0x0080"

text \<open>The two guarded blocks under "Update analog sticks".\<close>

definition update_sticks :: "u8 list \<Rightarrow> int \<Rightarrow> ControllerState \<Rightarrow> ControllerState option" where
  "update_sticks report reportLength s =
     do {
       s1 \<leftarrow> (if reportLength > 8 then
                do {
                  x \<leftarrow> rd report 6;
                  y \<leftarrow> rd report 8;
                  Some (s\<lparr>leftStickX := real (unat x) / 255,
                          leftStickY := real (unat y) / 255\<rparr>)
                }
              else Some s);
       (if reportLength > 12 then
          do {
            x \<leftarrow> rd report 10;
            y \<leftarrow> rd report 12;
            Some (s1\<lparr>rightStickX := real (unat x) / 255,
                     rightStickY := real (unat y) / 255\<rparr>)
          }
        else Some s1)
     }"

text \<open>The names printed by the last part of \<open>processInputReport\<close>, in the order printed.\<close>

definition name_if :: "bool \<Rightarrow> button \<Rightarrow> button list" where
  "name_if p b = (if p then [b] else [])"

definition print_buttons :: "u8 \<Rightarrow> u8 \<Rightarrow> u8 \<Rightarrow> line list" where
  "print_buttons buttons1 buttons2 buttons3 =
     (let y_pressed = pressed buttons1 0x01;
          x_pressed = pressed buttons1 0x02;
          b_pressed = pressed buttons1 0x04;
          a_pressed = pressed buttons1 0x08;
          r_pressed = pressed buttons1 0x40;
          zr_pressed = pressed buttons1 0x80;
          minus_pressed = pressed buttons2 0x01;
          plus_pressed = pressed buttons2 0x02;
          home_pressed = pressed buttons2 0x10;
          capture_pressed = pressed buttons2 0x20;
          l_pressed = pressed buttons3 0x20;
          zl_pressed = pressed buttons3 0x40
      in if a_pressed \<or> b_pressed \<or> x_pressed \<or> y_pressed \<or>
            l_pressed \<or> r_pressed \<or> zl_pressed \<or> zr_pressed \<or>
            minus_pressed \<or> plus_pressed \<or> home_pressed \<or> capture_pressed
         then [Buttons (name_if a_pressed Btn_A @ name_if b_pressed Btn_B @
                        name_if x_pressed Btn_X @ name_if y_pressed Btn_Y @
                        name_if l_pressed Btn_L @ name_if r_pressed Btn_R @
                        name_if zl_pressed Btn_ZL @ name_if zr_pressed Btn_ZR @
                        name_if minus_pressed Btn_Minus @ name_if plus_pressed Btn_Plus @
                        name_if home_pressed Btn_HOME @
                        name_if capture_pressed Btn_CAPTURE)]
         else [])"

text \<open>
  \<open>processInputReport\<close> of the neural driver. \<open>now\<close> is the system clock in microseconds
  at the call.
\<close>

definition processInputReport :: "u64 \<Rightarrow> u8 list \<Rightarrow> int \<Rightarrow> driver \<Rightarrow> driver option" where
  "processInputReport now report reportLength d =
     (if reportLength < 3 then Some d
      else
        do {
          buttons1 \<leftarrow> rd report 1;
          buttons2 \<leftarrow> rd report 2;
          buttons3 \<leftarrow> rd report 3;
          s \<leftarrow> update_sticks report reportLength
                 ((currentState d)\<lparr>timestamp := now,
                                   buttons := update_buttons buttons1 buttons3\<rparr>);
          let d1 = extractFeatures s (d\<lparr>currentState := s\<rparr>);
          Some (d1\<lparr>console := console d1 @ print_buttons buttons1 buttons2 buttons3\<rparr>)
        })"

text \<open>
  \<open>processInputReport\<close> of the plain driver (\<open>switch_pro_driver.cpp\<close>), which keeps no
  state: the result is the lines printed. It reads the four stick bytes whatever the
  length is; \<open>print_buttons_plain\<close> is its decoding and printing part.
\<close>

definition dpad_states :: "dpad list" where
  "dpad_states =
     [DPad_Up, DPad_UpRight, DPad_Right, DPad_DownRight,
      DPad_Down, DPad_DownLeft, DPad_Left, DPad_UpLeft, DPad_Neutral]"

definition dpad_of :: "u8 \<Rightarrow> dpad" where
  "dpad_of buttons3 =
     (let dpad_state = buttons3 AND 0x0F
      in if dpad_state < 8 then dpad_states ! unat dpad_state else dpad_states ! 8)"

definition stick_if_moved :: "u8 \<Rightarrow> u8 \<Rightarrow> (u8 \<times> u8) option" where
  "stick_if_moved x y = (if x \<noteq> 0x80 \<or> y \<noteq> 0x80 then Some (x, y) else None)"

definition print_buttons_plain :: "u8 \<Rightarrow> u8 \<Rightarrow> u8 \<Rightarrow> u8 \<Rightarrow> u8 \<Rightarrow> u8 \<Rightarrow> u8 \<Rightarrow> line list" where
  "print_buttons_plain buttons1 buttons2 buttons3
       left_stick_x left_stick_y right_stick_x right_stick_y =
     (let y_pressed = pressed buttons1 0x01;
          x_pressed = pressed buttons1 0x02;
          b_pressed = pressed buttons1 0x04;
          a_pressed = pressed buttons1 0x08;
          r_pressed = pressed buttons1 0x40;
          zr_pressed = pressed buttons1 0x80;
          minus_pressed = pressed buttons2 0x01;
          plus_pressed = pressed buttons2 0x02;
          stick_left_pressed = pressed buttons2 0x04;
          stick_right_pressed = pressed buttons2 0x08;
          home_pressed = pressed buttons2 0x10;
          capture_pressed = pressed buttons2 0x20;
          l_pressed = pressed buttons3 0x20;
          zl_pressed = pressed buttons3 0x40;
          dpad_state = buttons3 AND 0x0F
      in if a_pressed \<or> b_pressed \<or> x_pressed \<or> y_pressed \<or>
            l_pressed \<or> r_pressed \<or> zl_pressed \<or> zr_pressed \<or>
            minus_pressed \<or> plus_pressed \<or> home_pressed \<or> capture_pressed \<or>
            stick_left_pressed \<or> stick_right_pressed \<or> dpad_state \<noteq> 8
         then [Buttons_DPad
                 (name_if a_pressed Btn_A @ name_if b_pressed Btn_B @
                  name_if x_pressed Btn_X @ name_if y_pressed Btn_Y @
                  name_if l_pressed Btn_L @ name_if r_pressed Btn_R @
                  name_if zl_pressed Btn_ZL @ name_if zr_pressed Btn_ZR @
                  name_if minus_pressed Btn_Minus @ name_if plus_pressed Btn_Plus @
                  name_if home_pressed Btn_HOME @
                  name_if capture_pressed Btn_CAPTURE @
                  name_if stick_left_pressed Btn_L3 @
                  name_if stick_right_pressed Btn_R3)
                 (dpad_of buttons3)
                 (stick_if_moved left_stick_x left_stick_y)
                 (stick_if_moved right_stick_x right_stick_y)]
         else [])"

definition processInputReport_plain :: "u8 list \<Rightarrow> int \<Rightarrow> line list option" where
  "processInputReport_plain report reportLength =
     (if reportLength < 3 then Some []
      else
        do {
          buttons1 \<leftarrow> rd report 1;
          buttons2 \<leftarrow> rd report 2;
          buttons3 \<leftarrow> rd report 3;
          left_stick_x \<leftarrow> rd report 6;
          left_stick_y \<leftarrow> rd report 8;
          right_stick_x \<leftarrow> rd report 10;
          right_stick_y \<leftarrow> rd report 12;
          Some (print_buttons_plain buttons1 buttons2 buttons3
                  left_stick_x left_stick_y right_stick_x right_stick_y)
        })"

section \<open>Connection and events\<close>

text \<open>
  \<open>setupController\<close> (the registration of the callback apart), \<open>deviceAdded\<close> (the lines of
  \<open>printControllerInfo\<close>, which are properties of the host's device, apart),
  \<open>deviceRemoved\<close> and the callback \<open>inputReport\<close>.
\<close>

definition setupController :: "hid_host \<Rightarrow> IOHIDDeviceRef \<Rightarrow> driver \<Rightarrow> driver" where
  "setupController host device d =
     (case IOHIDDeviceSetReport host device 0x01 [0x80, 0x01]
             (d\<lparr>connectedDevice := Some device\<rparr>) of
        (result, d1) \<Rightarrow>
          if result = kIOReturnSuccess then
            enableNeuralProcessing True
              (rumble host 0x00 0x20 100
                 (setLEDPattern host 0x01
                    (d1\<lparr>console := console d1 @ [Controller_initialized]\<rparr>)))
          else d1\<lparr>console := console d1 @ [Controller_init_failed result]\<rparr>)"

definition deviceAdded :: "hid_host \<Rightarrow> IOHIDDeviceRef \<Rightarrow> driver \<Rightarrow> driver" where
  "deviceAdded host device d =
     setupController host device (d\<lparr>console := console d @ [Controller_connected]\<rparr>)"

definition deviceRemoved :: "driver \<Rightarrow> driver" where
  "deviceRemoved d =
     d\<lparr>connectedDevice := None, console := console d @ [Controller_disconnected]\<rparr>"

definition inputReport :: "IOReturn \<Rightarrow> u64 \<Rightarrow> u8 list \<Rightarrow> int \<Rightarrow> driver \<Rightarrow> driver option" where
  "inputReport result now report reportLength d =
     (if result \<noteq> kIOReturnSuccess then Some d
      else processInputReport now report reportLength d)"

text \<open>
  What can happen to a driver, one event at a time: the host's callbacks, the public
  operations, and one turn of the worker thread's loop (which runs while the thread exists
  and processing is enabled). The queue is only touched under \<open>queueMutex\<close>, so each event
  sees it whole.
\<close>

datatype event =
  DeviceAdded IOHIDDeviceRef
  | DeviceRemoved
  | InputReport IOReturn u64 "u8 list" int
  | LoopTurn
  | Rumble u16 u16 u32
  | SetLEDPattern u8
  | EnableNeuralProcessing bool

fun step :: "hid_host \<Rightarrow> neural_engine \<Rightarrow> event \<Rightarrow> driver \<Rightarrow> driver option" where
  "step host engine (DeviceAdded device) d = Some (deviceAdded host device d)"
| "step host engine DeviceRemoved d = Some (deviceRemoved d)"
| "step host engine (InputReport result now report reportLength) d =
     inputReport result now report reportLength d"
| "step host engine LoopTurn d =
     Some (if processingThread d \<and> processingEnabled d
           then neuralProcessingStep host engine d else d)"
| "step host engine (Rumble lowFreq highFreq duration_ms) d =
     Some (rumble host lowFreq highFreq duration_ms d)"
| "step host engine (SetLEDPattern pattern) d = Some (setLEDPattern host pattern d)"
| "step host engine (EnableNeuralProcessing enable) d =
     Some (enableNeuralProcessing enable d)"

fun run :: "hid_host \<Rightarrow> neural_engine \<Rightarrow> event list \<Rightarrow> driver \<Rightarrow> driver option" where
  "run host engine [] d = Some d"
| "run host engine (e # es) d =
     (case step host engine e d of
        None \<Rightarrow> None
      | Some d' \<Rightarrow> run host engine es d')"

section \<open>The invariant of the pipeline\<close>

text \<open>
  What every vector made by \<open>createFeatureVector\<close> from a state with zero triggers looks
  like, and what holds of a driver after any sequence of events: at most 100 queued
  vectors, every queued or classified vector well formed, both triggers zero.
\<close>

definition vector_ok :: "real list \<Rightarrow> bool" where
  "vector_ok v \<longleftrightarrow> length v = 17 \<and> v ! 4 = 0 \<and> v ! 5 = 0"

definition pipeline_ok :: "driver \<Rightarrow> bool" where
  "pipeline_ok d \<longleftrightarrow>
     length (featureQueue d) \<le> 100
     \<and> list_all vector_ok (featureQueue d)
     \<and> list_all vector_ok (classified d)
     \<and> triggerL (currentState d) = 0
     \<and> triggerR (currentState d) = 0"

text \<open>The time delta of the vector enqueued last.\<close>

definition newest_time_delta :: "driver \<Rightarrow> real" where
  "newest_time_delta d = last (featureQueue d) ! 16"

section \<open>Example inputs\<close>

text \<open>
  Two reports of 14 bytes with the sticks centred and the D-pad neutral, one with no button
  and one with A (\<open>0x08\<close>) and B (\<open>0x04\<close>) in byte 1; and a host that accepts every write.
\<close>

definition report_neutral :: "u8 list" where
  "report_neutral =
     [0x30, 0x00, 0x00, 0x08, 0x00, 0x00, 0x80, 0x00, 0x80, 0x00, 0x80, 0x00, 0x80, 0x00]"

definition report_A_B :: "u8 list" where
  "report_A_B =
     [0x30, 0x0C, 0x00, 0x08, 0x00, 0x00, 0x80, 0x00, 0x80, 0x00, 0x80, 0x00, 0x80, 0x00]"

definition host_ok :: hid_host where
  "host_ok written w = kIOReturnSuccess"


text \<open>
  An engine that always sees a gesture; a connected driver with one vector, that of the
  initial state, in its queue; and a driver with processing enabled whose queue is full,
  of short vectors that tell the oldest from the other 99.
\<close>

definition gesture_engine :: neural_engine where
  "gesture_engine seen features = ''GESTURE_DETECTED''"

definition driver_one :: driver where
  "driver_one =
     (SwitchProController 0)
       \<lparr>connectedDevice := Some 7, processingEnabled := True, processingThread := True,
        featureQueue := [fst (createFeatureVector (currentState (SwitchProController 0)) 0)]\<rparr>"

definition driver_full :: driver where
  "driver_full =
     (SwitchProController 0)\<lparr>processingEnabled := True, featureQueue := [1] # replicate 99 [0]\<rparr>"

section \<open>The rumble frame\<close>

lemma little_endian_u16:
  "unat (ucast (h AND 0xFF :: u16) :: u8) + 256 * unat (ucast (drop_bit 8 h) :: u8) = unat h"
proof -
  have m: "(0xFF :: u16) = mask 8"
    by (simp add: mask_eq_exp_minus_1)
  have lo: "unat (ucast (h AND 0xFF) :: u8) = unat h mod 256"
    unfolding m
    by (simp add: unsigned_ucast_eq take_bit_eq_mod unat_mod_distrib flip: take_bit_eq_mask)
  have lt: "unat h < 65536"
    using unsigned_less [of h, where ?'a = nat] by simp
  have "unat (drop_bit 8 h) = unat h div 256"
    by (simp add: unat_drop_bit_eq drop_bit_eq_div unat_div_distrib)
  moreover from lt have "unat h div 256 < 256"
    by simp
  ultimately have hi: "unat (ucast (drop_bit 8 h) :: u8) = unat h div 256"
    by (simp add: unsigned_ucast_eq take_bit_eq_mod)
  show ?thesis
    unfolding lo hi by simp
qed

text \<open>
  C2, as the spec states it, at the frequencies of the gesture pulse: the frame would have 13
  bytes and every byte outside the header and the two frequencies would be zero. The array
  has 14 elements and its second byte is \<open>0x80\<close>.
\<close>

theorem rumble_frame_not_13_bytes:
  "length (rumbleData 0x30 0x30) \<noteq> 13 \<and> rumbleData 0x30 0x30 ! 1 \<noteq> 0"
  by (simp add: rumbleData_def)

text \<open>
  C2, amended: for every pair of 16-bit frequencies the frame has exactly 14 bytes; byte 0
  is \<open>0x10\<close>, the rumble report, and byte 1 is \<open>0x80\<close>; bytes 2 to 4 are zero; bytes 5
  and 6 are the high-band frequency, low byte first; bytes 7 and 8 are the low-band
  frequency, low byte first; bytes 9 to 13 are zero. The frame written to a connected
  device is this function of the two frequencies alone, whatever the driver's state, the
  host and the duration are, so equal inputs give equal frames.
\<close>

theorem rumble_frame_layout:
  "length (rumbleData lowFreq highFreq) = 14
   \<and> rumbleData lowFreq highFreq ! 0 = 0x10
   \<and> rumbleData lowFreq highFreq ! 1 = 0x80
   \<and> take 3 (drop 2 (rumbleData lowFreq highFreq)) = [0, 0, 0]
   \<and> unat (rumbleData lowFreq highFreq ! 5) + 256 * unat (rumbleData lowFreq highFreq ! 6)
       = unat highFreq
   \<and> unat (rumbleData lowFreq highFreq ! 7) + 256 * unat (rumbleData lowFreq highFreq ! 8)
       = unat lowFreq
   \<and> drop 9 (rumbleData lowFreq highFreq) = [0, 0, 0, 0, 0]
   \<and> hostWrites (rumble host lowFreq highFreq duration_ms (d\<lparr>connectedDevice := Some device\<rparr>))
       = hostWrites d @ [(device, 0x10, rumbleData lowFreq highFreq)]"
proof -
  have "unat (rumbleData lowFreq highFreq ! 5) + 256 * unat (rumbleData lowFreq highFreq ! 6)
        = unat highFreq"
    using little_endian_u16 [of highFreq] by (simp add: rumbleData_def)
  moreover
  have "unat (rumbleData lowFreq highFreq ! 7) + 256 * unat (rumbleData lowFreq highFreq ! 8)
        = unat lowFreq"
    using little_endian_u16 [of lowFreq] by (simp add: rumbleData_def)
  moreover
  have "hostWrites (rumble host lowFreq highFreq duration_ms (d\<lparr>connectedDevice := Some device\<rparr>))
        = hostWrites d @ [(device, 0x10, rumbleData lowFreq highFreq)]"
    by (simp add: rumble_def IOHIDDeviceSetReport_def)
  moreover
  have "length (rumbleData lowFreq highFreq) = 14
        \<and> rumbleData lowFreq highFreq ! 0 = 0x10
        \<and> rumbleData lowFreq highFreq ! 1 = 0x80
        \<and> take 3 (drop 2 (rumbleData lowFreq highFreq)) = [0, 0, 0]
        \<and> drop 9 (rumbleData lowFreq highFreq) = [0, 0, 0, 0, 0]"
    by (simp add: rumbleData_def)
  ultimately show ?thesis
    by blast
qed

section \<open>Processing an input report\<close>

text \<open>
  A report whose length is at least 3 and whose buffer holds the bytes it announces (and
  byte 3, which is read at length 3 too) is processed to the end.
\<close>

lemma rd_Some: "i < length report \<Longrightarrow> rd report i = Some (report ! i)"
  by (simp add: rd_def)

lemma update_sticks_total:
  assumes "reportLength \<le> int (length report)"
  shows "\<exists>s'. update_sticks report reportLength s = Some s'
           \<and> timestamp s' = timestamp s \<and> buttons s' = buttons s
           \<and> triggerL s' = triggerL s \<and> triggerR s' = triggerR s
           \<and> leftStickX s' = (if 8 < reportLength then real (unat (report ! 6)) / 255 else leftStickX s)
           \<and> leftStickY s' = (if 8 < reportLength then real (unat (report ! 8)) / 255 else leftStickY s)
           \<and> rightStickX s' = (if 12 < reportLength then real (unat (report ! 10)) / 255 else rightStickX s)
           \<and> rightStickY s' = (if 12 < reportLength then real (unat (report ! 12)) / 255 else rightStickY s)"
  using assms by (auto simp: update_sticks_def rd_def)

lemma extractFeatures_keeps:
  "currentState (extractFeatures s d) = currentState d
   \<and> connectedDevice (extractFeatures s d) = connectedDevice d
   \<and> processingEnabled (extractFeatures s d) = processingEnabled d
   \<and> processingThread (extractFeatures s d) = processingThread d
   \<and> hostWrites (extractFeatures s d) = hostWrites d
   \<and> classified (extractFeatures s d) = classified d
   \<and> console (extractFeatures s d) = console d"
  by (simp add: extractFeatures_def Let_def split: prod.splits)

lemma processInputReport_long:
  assumes "3 \<le> reportLength" "reportLength \<le> int (length report)" "4 \<le> length report"
  shows "\<exists>s. update_sticks report reportLength
                ((currentState d)\<lparr>timestamp := now,
                                  buttons := update_buttons (report ! 1) (report ! 3)\<rparr>) = Some s
             \<and> processInputReport now report reportLength d =
                 Some ((extractFeatures s (d\<lparr>currentState := s\<rparr>))
                        \<lparr>console := console d @ print_buttons (report ! 1) (report ! 2) (report ! 3)\<rparr>)"
proof -
  obtain s where s: "update_sticks report reportLength
                ((currentState d)\<lparr>timestamp := now,
                                  buttons := update_buttons (report ! 1) (report ! 3)\<rparr>) = Some s"
    using update_sticks_total [OF assms(2)] by blast
  from assms s show ?thesis
    by (simp add: processInputReport_def rd_def extractFeatures_keeps)
qed

text \<open>
  C3, as the spec states it, at a report of 5 bytes: decoding would fail and leave the state
  as it was. The report is processed: the buttons go from 0 to \<open>0x0008\<close>, and with
  processing enabled a vector is enqueued.
\<close>

theorem five_byte_report_changes_state:
  "map_option (buttons \<circ> currentState)
     (processInputReport 1000 [0x30, 0x08, 0x00, 0x08, 0x00] 5 (SwitchProController 0)) = Some 0x0008
   \<and> buttons (currentState (SwitchProController 0)) = 0
   \<and> map_option (length \<circ> featureQueue)
       (processInputReport 1000 [0x30, 0x08, 0x00, 0x08, 0x00] 5
          (enableNeuralProcessing True (SwitchProController 0))) = Some 1
   \<and> featureQueue (enableNeuralProcessing True (SwitchProController 0)) = []"
  by (simp add: processInputReport_def rd_def update_sticks_def update_buttons_def bit_of_def
      extractFeatures_def createFeatureVector_def enableNeuralProcessing_def
      SwitchProController_def Let_def)

text \<open>
  C3, amended: for every input report whose length is below 3, processing returns at once
  and leaves the driver completely unchanged (no field is written and nothing is enqueued);
  there is no error value. A report of length 4 or more, all of whose bytes can be read, is
  processed, also when it is shorter than 13: the timestamp and the buttons of the current
  state are set from it.
\<close>

theorem report_shorter_than_3_is_dropped:
  "(reportLength < 3 \<longrightarrow> processInputReport now report reportLength d = Some d)
   \<and> (4 \<le> reportLength \<and> reportLength \<le> int (length report) \<longrightarrow>
        map_option (timestamp \<circ> currentState) (processInputReport now report reportLength d)
          = Some now
        \<and> map_option (buttons \<circ> currentState) (processInputReport now report reportLength d)
          = Some (update_buttons (report ! 1) (report ! 3)))"
proof (intro conjI impI)
  assume "reportLength < 3"
  then show "processInputReport now report reportLength d = Some d"
    by (simp add: processInputReport_def)
next
  assume b: "4 \<le> reportLength \<and> reportLength \<le> int (length report)"
  then have a: "3 \<le> reportLength \<and> reportLength \<le> int (length report) \<and> 4 \<le> length report"
    by simp
  then obtain s where s: "update_sticks report reportLength
                ((currentState d)\<lparr>timestamp := now,
                                  buttons := update_buttons (report ! 1) (report ! 3)\<rparr>) = Some s"
    and p: "processInputReport now report reportLength d =
                 Some ((extractFeatures s (d\<lparr>currentState := s\<rparr>))
                        \<lparr>console := console d @ print_buttons (report ! 1) (report ! 2) (report ! 3)\<rparr>)"
    using processInputReport_long [where reportLength = reportLength and report = report and d = d and now = now] by blast
  from a s have f: "timestamp s = now \<and> buttons s = update_buttons (report ! 1) (report ! 3)"
    using update_sticks_total [where reportLength = reportLength and report = report
        and s = "(currentState d)\<lparr>timestamp := now, buttons := update_buttons (report ! 1) (report ! 3)\<rparr>"]
    by auto
  show "map_option (timestamp \<circ> currentState) (processInputReport now report reportLength d)
          = Some now"
    using f by (simp add: p extractFeatures_keeps)
  show "map_option (buttons \<circ> currentState) (processInputReport now report reportLength d)
          = Some (update_buttons (report ! 1) (report ! 3))"
    using f by (simp add: p extractFeatures_keeps)
qed

theorem report_shorter_than_3_is_dropped_witness:
  "processInputReport 1000 [0x30, 0x08] 2 (SwitchProController 0) = Some (SwitchProController 0)
   \<and> map_option (timestamp \<circ> currentState)
       (processInputReport 1000 [0x30, 0x08, 0x00, 0x08, 0x00] 5 (SwitchProController 0)) = Some 1000
   \<and> map_option (buttons \<circ> currentState)
       (processInputReport 1000 [0x30, 0x08, 0x00, 0x08, 0x00] 5 (SwitchProController 0)) = Some 0x0008"
  using report_shorter_than_3_is_dropped [where reportLength = 2 and now = 1000
      and report = "[0x30, 0x08]" and d = "SwitchProController 0"]
    report_shorter_than_3_is_dropped [where reportLength = 5 and now = 1000
      and report = "[0x30, 0x08, 0x00, 0x08, 0x00]" and d = "SwitchProController 0"]
  by (simp add: update_buttons_def bit_of_def)



section \<open>Commands and the connection\<close>



section \<open>The invariant holds after every run\<close>

lemma pipeline_ok_cong:
  assumes "featureQueue d' = featureQueue d" "classified d' = classified d"
    "currentState d' = currentState d"
  shows "pipeline_ok d' = pipeline_ok d"
  using assms by (simp add: pipeline_ok_def)

lemma rumble_keeps:
  "featureQueue (rumble host l h ms d) = featureQueue d
   \<and> classified (rumble host l h ms d) = classified d
   \<and> currentState (rumble host l h ms d) = currentState d
   \<and> lastTimestamp (rumble host l h ms d) = lastTimestamp d
   \<and> processingEnabled (rumble host l h ms d) = processingEnabled d
   \<and> processingThread (rumble host l h ms d) = processingThread d
   \<and> connectedDevice (rumble host l h ms d) = connectedDevice d"
  by (simp add: rumble_def IOHIDDeviceSetReport_def split: option.splits)

lemma setLEDPattern_keeps:
  "featureQueue (setLEDPattern host p d) = featureQueue d
   \<and> classified (setLEDPattern host p d) = classified d
   \<and> currentState (setLEDPattern host p d) = currentState d
   \<and> lastTimestamp (setLEDPattern host p d) = lastTimestamp d
   \<and> processingEnabled (setLEDPattern host p d) = processingEnabled d
   \<and> processingThread (setLEDPattern host p d) = processingThread d
   \<and> connectedDevice (setLEDPattern host p d) = connectedDevice d"
  by (simp add: setLEDPattern_def IOHIDDeviceSetReport_def split: option.splits)

lemma enableNeuralProcessing_keeps:
  "featureQueue (enableNeuralProcessing b d) = featureQueue d
   \<and> classified (enableNeuralProcessing b d) = classified d
   \<and> currentState (enableNeuralProcessing b d) = currentState d
   \<and> lastTimestamp (enableNeuralProcessing b d) = lastTimestamp d
   \<and> hostWrites (enableNeuralProcessing b d) = hostWrites d
   \<and> connectedDevice (enableNeuralProcessing b d) = connectedDevice d
   \<and> processingEnabled (enableNeuralProcessing b d) = b"
  by (simp add: enableNeuralProcessing_def Let_def)

lemma deviceAdded_keeps:
  "featureQueue (deviceAdded host dev d) = featureQueue d
   \<and> classified (deviceAdded host dev d) = classified d
   \<and> currentState (deviceAdded host dev d) = currentState d
   \<and> lastTimestamp (deviceAdded host dev d) = lastTimestamp d"
  by (simp add: deviceAdded_def setupController_def IOHIDDeviceSetReport_def
      enableNeuralProcessing_keeps rumble_keeps setLEDPattern_keeps)

lemma createFeatureVector_ok:
  "triggerL s = 0 \<Longrightarrow> triggerR s = 0 \<Longrightarrow> vector_ok (fst (createFeatureVector s l))"
  by (simp add: createFeatureVector_def vector_ok_def Let_def)

lemma extractFeatures_ok:
  assumes "pipeline_ok d" "triggerL s = 0" "triggerR s = 0"
  shows "pipeline_ok (extractFeatures s d)"
proof (cases "processingEnabled d")
  case False
  then show ?thesis using assms(1) by (simp add: extractFeatures_def)
next
  case True
  let ?v = "fst (createFeatureVector s (lastTimestamp d))"
  let ?q = "featureQueue d @ [?v]"
  have v: "vector_ok ?v" using assms(2,3) by (rule createFeatureVector_ok)
  have q: "list_all vector_ok ?q" using assms(1) v by (simp add: pipeline_ok_def)
  have t: "list_all vector_ok (tl ?q)"
    using q by (cases ?q) simp_all
  have e: "featureQueue (extractFeatures s d) = (if length ?q > 100 then tl ?q else ?q)"
    using True by (simp add: extractFeatures_def Let_def split: prod.splits)
  have l: "length (featureQueue (extractFeatures s d)) \<le> 100"
    using assms(1) unfolding e by (simp add: pipeline_ok_def)
  have a: "list_all vector_ok (featureQueue (extractFeatures s d))"
    unfolding e using q t by simp
  show ?thesis
    using l a assms(1) extractFeatures_keeps [of s d] by (simp add: pipeline_ok_def)
qed

lemma update_sticks_triggers:
  "update_sticks report n s = Some s' \<Longrightarrow> triggerL s' = triggerL s \<and> triggerR s' = triggerR s"
  by (auto simp: update_sticks_def split: if_splits bind_splits)

lemma processInputReport_ok:
  assumes "pipeline_ok d" "processInputReport now report n d = Some d'"
  shows "pipeline_ok d'"
proof (cases "n < 3")
  case True
  then show ?thesis using assms by (simp add: processInputReport_def)
next
  case False
  then obtain b1 b2 b3 s where
    s: "update_sticks report n ((currentState d)\<lparr>timestamp := now, buttons := update_buttons b1 b3\<rparr>) = Some s"
    and d': "d' = (extractFeatures s (d\<lparr>currentState := s\<rparr>))
                    \<lparr>console := console (extractFeatures s (d\<lparr>currentState := s\<rparr>)) @ print_buttons b1 b2 b3\<rparr>"
    using assms(2) by (auto simp: processInputReport_def Let_def split: bind_splits)
  have tr: "triggerL s = 0 \<and> triggerR s = 0"
    using update_sticks_triggers [OF s] assms(1) by (simp add: pipeline_ok_def)
  have "pipeline_ok (d\<lparr>currentState := s\<rparr>)"
    using assms(1) tr by (simp add: pipeline_ok_def)
  then have "pipeline_ok (extractFeatures s (d\<lparr>currentState := s\<rparr>))"
    using tr by (simp add: extractFeatures_ok)
  then show ?thesis
    unfolding d' by (simp add: pipeline_ok_def)
qed

lemma neuralProcessingStep_keeps:
  "currentState (neuralProcessingStep host engine d) = currentState d
   \<and> lastTimestamp (neuralProcessingStep host engine d) = lastTimestamp d
   \<and> featureQueue (neuralProcessingStep host engine d) = tl (featureQueue d)
   \<and> classified (neuralProcessingStep host engine d) =
       classified d @ (if featureQueue d \<noteq> [] \<and> hd (featureQueue d) \<noteq> [] then [hd (featureQueue d)] else [])"
  by (simp add: neuralProcessingStep_def processControllerFeatures_def Let_def rumble_keeps
      split: list.splits)

lemma neuralProcessingStep_ok:
  assumes "pipeline_ok d"
  shows "pipeline_ok (neuralProcessingStep host engine d)"
proof -
  have "list_all vector_ok (tl (featureQueue d))"
    using assms by (cases "featureQueue d") (simp_all add: pipeline_ok_def)
  moreover have "featureQueue d \<noteq> [] \<Longrightarrow> vector_ok (hd (featureQueue d))"
    using assms by (cases "featureQueue d") (simp_all add: pipeline_ok_def)
  moreover have "length (tl (featureQueue d)) \<le> 100"
  proof -
    have "length (featureQueue d) \<le> 100" using assms by (simp add: pipeline_ok_def)
    then show ?thesis by simp
  qed
  ultimately show ?thesis
    using assms neuralProcessingStep_keeps [of host engine d]
    by (auto simp: pipeline_ok_def)
qed

lemma step_ok:
  assumes "pipeline_ok d" "step host engine e d = Some d'"
  shows "pipeline_ok d'"
proof (cases e)
  case (DeviceAdded dev)
  then show ?thesis using assms deviceAdded_keeps [of host dev d]
    by (auto simp: pipeline_ok_def)
next
  case DeviceRemoved
  then show ?thesis using assms by (auto simp: pipeline_ok_def deviceRemoved_def)
next
  case (InputReport r now report n)
  then show ?thesis using assms processInputReport_ok [of d now report n d']
    by (auto simp: inputReport_def split: if_splits)
next
  case LoopTurn
  then show ?thesis using assms neuralProcessingStep_ok [of d host engine]
    by (auto split: if_splits)
next
  case (Rumble l h ms)
  then show ?thesis using assms rumble_keeps [of host l h ms d]
    by (auto simp: pipeline_ok_def)
next
  case (SetLEDPattern p)
  then show ?thesis using assms setLEDPattern_keeps [of host p d]
    by (auto simp: pipeline_ok_def)
next
  case (EnableNeuralProcessing b)
  then show ?thesis using assms enableNeuralProcessing_keeps [of b d]
    by (auto simp: pipeline_ok_def)
qed

lemma run_ok:
  "pipeline_ok d \<Longrightarrow> run host engine es d = Some d' \<Longrightarrow> pipeline_ok d'"
proof (induction es arbitrary: d)
  case Nil
  then show ?case by simp
next
  case (Cons e es)
  then obtain d1 where s: "step host engine e d = Some d1" and r: "run host engine es d1 = Some d'"
    by (auto split: option.splits)
  from Cons.prems(1) s have "pipeline_ok d1" by (rule step_ok)
  then show ?case using r by (rule Cons.IH)
qed

lemma initial_ok: "pipeline_ok (SwitchProController prev)"
  by (simp add: pipeline_ok_def SwitchProController_def)

text \<open>The definitions a run on concrete inputs unfolds.\<close>

lemmas eval_defs =
  inputReport_def processInputReport_def rd_def update_sticks_def update_buttons_def bit_of_def
  extractFeatures_def createFeatureVector_def flag_def enableNeuralProcessing_def
  SwitchProController_def print_buttons_def pressed_def name_if_def kIOReturnSuccess_def
  report_neutral_def report_A_B_def neuralProcessingStep_def processControllerFeatures_def
  objc_unavailable_def host_ok_def rumble_def IOHIDDeviceSetReport_def Let_def

lemma enqueue_eq:
  assumes "processingEnabled d"
  shows "featureQueue (extractFeatures s d) =
           (if length (featureQueue d) \<ge> 100
            then tl (featureQueue d @ [fst (createFeatureVector s (lastTimestamp d))])
            else featureQueue d @ [fst (createFeatureVector s (lastTimestamp d))])"
  using assms by (simp add: extractFeatures_def Let_def split: prod.splits)

section \<open>The feature queue\<close>

text \<open>
  C4: after any sequence of events from a newly constructed driver the queue holds at most 100
  vectors. Enqueuing into a queue of 100 drops exactly the oldest vector and appends the
  new one behind the other 99, in their order; below 100 the new vector is appended and
  nothing is dropped. \<open>extractFeatures\<close> is a total function: enqueuing returns a driver
  in every case.
\<close>

theorem feature_queue_bounded:
  "(run host engine es (SwitchProController prev) = Some d \<longrightarrow> length (featureQueue d) \<le> 100)
   \<and> (processingEnabled d0 \<and> length (featureQueue d0) = 100 \<longrightarrow>
        featureQueue (extractFeatures s d0) =
          tl (featureQueue d0) @ [fst (createFeatureVector s (lastTimestamp d0))])
   \<and> (processingEnabled d0 \<and> length (featureQueue d0) < 100 \<longrightarrow>
        featureQueue (extractFeatures s d0) =
          featureQueue d0 @ [fst (createFeatureVector s (lastTimestamp d0))])"
proof (intro conjI impI)
  assume "run host engine es (SwitchProController prev) = Some d"
  with initial_ok have "pipeline_ok d" by (rule run_ok)
  then show "length (featureQueue d) \<le> 100" by (simp add: pipeline_ok_def)
next
  assume a: "processingEnabled d0 \<and> length (featureQueue d0) = 100"
  then have "featureQueue d0 \<noteq> []" by auto
  then show "featureQueue (extractFeatures s d0) =
          tl (featureQueue d0) @ [fst (createFeatureVector s (lastTimestamp d0))]"
    using a by (simp add: enqueue_eq)
next
  assume "processingEnabled d0 \<and> length (featureQueue d0) < 100"
  then show "featureQueue (extractFeatures s d0) =
          featureQueue d0 @ [fst (createFeatureVector s (lastTimestamp d0))]"
    by (simp add: enqueue_eq)
qed

theorem feature_queue_bounded_witness:
  "map_option (length \<circ> featureQueue)
     (run host_ok objc_unavailable
        [EnableNeuralProcessing True, InputReport 0 1000 report_neutral 14] (SwitchProController 0))
     = Some 1
   \<and> length (featureQueue driver_full) = 100
   \<and> featureQueue (extractFeatures (currentState driver_full) driver_full) =
       replicate 99 [0] @ [fst (createFeatureVector (currentState driver_full) 0)]
   \<and> featureQueue (extractFeatures (currentState (SwitchProController 0))
                     ((SwitchProController 0)\<lparr>processingEnabled := True\<rparr>)) =
       [fst (createFeatureVector (currentState (SwitchProController 0)) 0)]"
proof -
  let ?es = "[EnableNeuralProcessing True, InputReport 0 1000 report_neutral 14]"
  let ?r = "run host_ok objc_unavailable ?es (SwitchProController 0)"
  have len: "map_option (length \<circ> featureQueue) ?r = Some 1"
    by (simp add: eval_defs)
  then obtain d where d: "?r = Some d" by auto
  have full: "processingEnabled driver_full \<and> length (featureQueue driver_full) = 100"
    by (simp add: driver_full_def)
  have one: "processingEnabled ((SwitchProController 0)\<lparr>processingEnabled := True\<rparr>)
             \<and> length (featureQueue ((SwitchProController 0)\<lparr>processingEnabled := True\<rparr>)) < 100"
    by (simp add: SwitchProController_def)
  show ?thesis
    using feature_queue_bounded [where host = host_ok and engine = objc_unavailable
        and es = ?es and d = d and prev = 0 and ?d0.0 = driver_full
        and s = "currentState driver_full"]
      feature_queue_bounded [where ?d0.0 = "(SwitchProController 0)\<lparr>processingEnabled := True\<rparr>"
        and s = "currentState (SwitchProController 0)"]
      d len full one
    by (simp add: driver_full_def SwitchProController_def)
qed

text \<open>
  C9: after any sequence of events from the initial driver both trigger fields of the
  current state are 0, and elements 4 and 5 of every vector of 17 in the queue, and of
  every vector handed to the inference engine, are 0: no report writes the triggers.
\<close>

theorem triggers_always_zero:
  assumes "run host engine es (SwitchProController prev) = Some d"
  shows "triggerL (currentState d) = 0 \<and> triggerR (currentState d) = 0
     \<and> (\<forall>v \<in> set (featureQueue d). length v = 17 \<and> v ! 4 = 0 \<and> v ! 5 = 0)
     \<and> (\<forall>v \<in> set (classified d). length v = 17 \<and> v ! 4 = 0 \<and> v ! 5 = 0)"
proof -
  from initial_ok assms have "pipeline_ok d" by (rule run_ok)
  then show ?thesis
    by (simp add: pipeline_ok_def list_all_iff vector_ok_def)
qed


theorem triggers_always_zero_witness:
  "run host_ok objc_unavailable
     [EnableNeuralProcessing True, InputReport 0 1000 report_A_B 14] (SwitchProController 0) \<noteq> None
   \<and> triggerL (currentState (the (run host_ok objc_unavailable
         [EnableNeuralProcessing True, InputReport 0 1000 report_A_B 14] (SwitchProController 0)))) = 0
   \<and> triggerR (currentState (the (run host_ok objc_unavailable
         [EnableNeuralProcessing True, InputReport 0 1000 report_A_B 14] (SwitchProController 0)))) = 0
   \<and> hd (featureQueue (the (run host_ok objc_unavailable
         [EnableNeuralProcessing True, InputReport 0 1000 report_A_B 14] (SwitchProController 0)))) ! 4 = 0
   \<and> hd (featureQueue (the (run host_ok objc_unavailable
         [EnableNeuralProcessing True, InputReport 0 1000 report_A_B 14] (SwitchProController 0)))) ! 5 = 0"
proof -
  let ?r = "run host_ok objc_unavailable
     [EnableNeuralProcessing True, InputReport 0 1000 report_A_B 14] (SwitchProController 0)"
  have len: "map_option (length \<circ> featureQueue) ?r = Some 1"
    by (simp add: eval_defs)
  then obtain d where d: "?r = Some d" and l: "length (featureQueue d) = 1"
    by auto
  from l have "hd (featureQueue d) \<in> set (featureQueue d)"
    by (cases "featureQueue d") simp_all
  then show ?thesis
    using triggers_always_zero [OF d] d by simp
qed

section \<open>The consumption step\<close>

text \<open>
  C6: one pass of the loop body on an empty queue changes nothing: no vector is popped, the
  engine is not called, nothing is written or printed. On a queue whose oldest vector is
  \<open>v\<close> the pass pops \<open>v\<close>, hands it to the engine once, and calls \<open>rumble\<close> with low and
  high frequency \<open>0x30\<close> exactly when the engine's label is \<open>GESTURE_DETECTED\<close>; every other
  label leaves the driver with the pop and the call only. With a device attached the signal
  is one write of the rumble frame for \<open>0x30\<close>, \<open>0x30\<close>. The vectors of a queue reached
  from the initial driver are never empty.
\<close>

theorem consumption_step:
  "(featureQueue d = [] \<longrightarrow> neuralProcessingStep host engine d = d)
   \<and> (featureQueue d = v # rest \<and> v \<noteq> [] \<longrightarrow>
        (let d2 = d\<lparr>featureQueue := rest, classified := classified d @ [v]\<rparr>;
             d3 = rumble host 0x30 0x30 50 d2
         in neuralProcessingStep host engine d =
              (if engine (classified d) v = ''GESTURE_DETECTED''
               then d3\<lparr>console := console d3 @ [Gesture_detected]\<rparr>
               else d2)))
   \<and> (featureQueue d = v # rest \<and> v \<noteq> [] \<and> connectedDevice d = Some device \<longrightarrow>
        hostWrites (neuralProcessingStep host engine d) =
          hostWrites d @
            (if engine (classified d) v = ''GESTURE_DETECTED''
             then [(device, 0x10, rumbleData 0x30 0x30)] else []))
   \<and> (run host engine es (SwitchProController prev) = Some d \<longrightarrow> [] \<notin> set (featureQueue d))"
proof -
  have "[] \<notin> set (featureQueue d)" if "run host engine es (SwitchProController prev) = Some d"
  proof -
    from initial_ok that have "pipeline_ok d" by (rule run_ok)
    then show ?thesis
      by (auto simp: pipeline_ok_def list_all_iff vector_ok_def)
  qed
  moreover
  have "hostWrites (neuralProcessingStep host engine d) =
          hostWrites d @
            (if engine (classified d) v = ''GESTURE_DETECTED''
             then [(device, 0x10, rumbleData 0x30 0x30)] else [])"
    if "featureQueue d = v # rest \<and> v \<noteq> [] \<and> connectedDevice d = Some device"
    using that
    by (simp add: neuralProcessingStep_def processControllerFeatures_def Let_def rumble_def
        IOHIDDeviceSetReport_def)
  ultimately show ?thesis
    by (simp add: neuralProcessingStep_def processControllerFeatures_def Let_def)
qed

theorem consumption_step_witness:
  "neuralProcessingStep host_ok gesture_engine (SwitchProController 0) = (SwitchProController 0)
   \<and> featureQueue (neuralProcessingStep host_ok gesture_engine driver_one) = []
   \<and> classified (neuralProcessingStep host_ok gesture_engine driver_one) = featureQueue driver_one
   \<and> hostWrites (neuralProcessingStep host_ok gesture_engine driver_one) =
       [(7, 0x10, [0x10, 0x80, 0, 0, 0, 0x30, 0, 0x30, 0, 0, 0, 0, 0, 0])]
   \<and> console (neuralProcessingStep host_ok gesture_engine driver_one) =
       [Rumble_activated 50, Gesture_detected]
   \<and> featureQueue (neuralProcessingStep host_ok objc_unavailable driver_one) = []
   \<and> classified (neuralProcessingStep host_ok objc_unavailable driver_one) = featureQueue driver_one
   \<and> hostWrites (neuralProcessingStep host_ok objc_unavailable driver_one) = []
   \<and> console (neuralProcessingStep host_ok objc_unavailable driver_one) = []
   \<and> run host_ok objc_unavailable
         [EnableNeuralProcessing True, InputReport 0 1000 report_A_B 14] (SwitchProController 0) \<noteq> None
   \<and> [] \<notin> set (featureQueue (the (run host_ok objc_unavailable
         [EnableNeuralProcessing True, InputReport 0 1000 report_A_B 14] (SwitchProController 0))))"
proof -
  let ?v = "fst (createFeatureVector (currentState (SwitchProController 0)) 0)"
  let ?es = "[EnableNeuralProcessing True, InputReport 0 1000 report_A_B 14]"
  have q0: "featureQueue (SwitchProController 0) = []"
    by (simp add: SwitchProController_def)
  have q1: "featureQueue driver_one = ?v # [] \<and> ?v \<noteq> []"
    by (simp add: driver_one_def createFeatureVector_def Let_def)
  have "map_option (length \<circ> featureQueue)
          (run host_ok objc_unavailable ?es (SwitchProController 0)) = Some 1"
    by (simp add: eval_defs)
  then obtain d where d: "run host_ok objc_unavailable ?es (SwitchProController 0) = Some d"
    by auto
  have g: "gesture_engine (classified driver_one) ?v = ''GESTURE_DETECTED''"
    "objc_unavailable (classified driver_one) ?v \<noteq> ''GESTURE_DETECTED''"
    by (simp_all add: gesture_engine_def objc_unavailable_def)
  have c: "connectedDevice driver_one = Some 7 \<and> hostWrites driver_one = []
           \<and> console driver_one = [] \<and> classified driver_one = []"
    by (simp add: driver_one_def SwitchProController_def)
  show ?thesis
    using consumption_step [where d = "SwitchProController 0" and host = host_ok
        and engine = gesture_engine]
      consumption_step [where d = driver_one and host = host_ok and engine = gesture_engine
        and v = ?v and rest = "[]" and device = 7]
      consumption_step [where d = driver_one and host = host_ok and engine = objc_unavailable
        and v = ?v and rest = "[]" and device = 7]
      consumption_step [where d = d and host = host_ok and engine = objc_unavailable
        and es = ?es and prev = 0]
      q0 q1 g c d
    by (simp add: Let_def rumble_def IOHIDDeviceSetReport_def host_ok_def kIOReturnSuccess_def
        rumbleData_def)
qed

section \<open>Decoding the D-pad and the buttons\<close>

lemma and_submask_zero:
  fixes b :: u8
  assumes "b AND m = 0" "m' AND m = m'"
  shows "b AND m' = 0"
proof -
  have "b AND m' = b AND (m' AND m)" using assms(2) by simp
  also have "\<dots> = (b AND m) AND m'" by (simp add: ac_simps)
  also have "\<dots> = 0" using assms(1) by simp
  finally show ?thesis .
qed

lemma dpad_of_low_nibble: "dpad_of buttons3 = dpad_of (buttons3 AND 0x0F)"
  by (simp add: dpad_of_def Let_def and.assoc)

lemma dpad_table:
  "map dpad_of [0, 1, 2, 3, 4, 5, 6, 7] =
     [DPad_Up, DPad_UpRight, DPad_Right, DPad_DownRight,
      DPad_Down, DPad_DownLeft, DPad_Left, DPad_UpLeft]"
  by (simp add: dpad_of_def dpad_states_def Let_def)

lemma dpad_neutral: "8 \<le> buttons3 AND 0x0F \<Longrightarrow> dpad_of buttons3 = DPad_Neutral"
  by (simp add: dpad_of_def dpad_states_def Let_def)

lemma plain_total:
  assumes "13 \<le> length report" "3 \<le> reportLength"
  shows "processInputReport_plain report reportLength =
     Some (print_buttons_plain (report ! 1) (report ! 2) (report ! 3)
             (report ! 6) (report ! 8) (report ! 10) (report ! 12))"
  using assms by (simp add: processInputReport_plain_def rd_def)

lemma only_A_plain:
  assumes "buttons2 AND 0x3F = 0" "buttons3 AND 0x60 = 0"
  shows "print_buttons_plain 0x08 buttons2 buttons3 lx ly rx ry =
     [Buttons_DPad [Btn_A] (dpad_of buttons3) (stick_if_moved lx ly) (stick_if_moved rx ry)]"
proof -
  have b2: "buttons2 AND 0x01 = 0" "buttons2 AND 0x02 = 0" "buttons2 AND 0x04 = 0"
    "buttons2 AND 0x08 = 0" "buttons2 AND 0x10 = 0" "buttons2 AND 0x20 = 0"
    using assms(1) by (auto intro: and_submask_zero [where m = "0x3F"])
  have b3: "buttons3 AND 0x20 = 0" "buttons3 AND 0x40 = 0"
    using assms(2) by (auto intro: and_submask_zero [where m = "0x60"])
  show ?thesis
    by (simp add: print_buttons_plain_def pressed_def name_if_def b2 b3 Let_def)
qed

lemma only_A_neural:
  assumes "buttons3 AND 0x60 = 0"
  shows "update_buttons 0x08 buttons3 = 0x0008"
proof -
  have b3: "buttons3 AND 0x20 = 0" "buttons3 AND 0x40 = 0"
    using assms by (auto intro: and_submask_zero [where m = "0x60"])
  show ?thesis
    by (simp add: update_buttons_def bit_of_def b3)
qed

text \<open>
  C7: the D-pad value decoded by the plain driver depends on the low 4 bits of byte 3 only;
  the values 0 to 7 are up, up-right, right, down-right, down, down-left, left and up-left,
  clockwise from up, and every value from 8 on is neutral. A report whose buffer holds 13
  bytes is decoded from its bytes 1, 2, 3, 6, 8, 10 and 12. With byte 1 equal to \<open>0x08\<close>
  and no button bit in bytes 2 and 3 the buttons decoded are exactly A, in the plain driver
  as in the neural one (whose bit \<open>0x0008\<close> is the one its decoder sets for A).
\<close>

theorem dpad_and_button_A:
  "dpad_of buttons3 = dpad_of (buttons3 AND 0x0F)
   \<and> map dpad_of [0, 1, 2, 3, 4, 5, 6, 7] =
       [DPad_Up, DPad_UpRight, DPad_Right, DPad_DownRight,
        DPad_Down, DPad_DownLeft, DPad_Left, DPad_UpLeft]
   \<and> (8 \<le> buttons3 AND 0x0F \<longrightarrow> dpad_of buttons3 = DPad_Neutral)
   \<and> (13 \<le> length report \<and> 3 \<le> reportLength \<longrightarrow>
        processInputReport_plain report reportLength =
          Some (print_buttons_plain (report ! 1) (report ! 2) (report ! 3)
                  (report ! 6) (report ! 8) (report ! 10) (report ! 12)))
   \<and> (buttons2 AND 0x3F = 0 \<and> buttons3 AND 0x60 = 0 \<longrightarrow>
        print_buttons_plain 0x08 buttons2 buttons3 lx ly rx ry =
          [Buttons_DPad [Btn_A] (dpad_of buttons3)
             (stick_if_moved lx ly) (stick_if_moved rx ry)])
   \<and> (buttons3 AND 0x60 = 0 \<longrightarrow> update_buttons 0x08 buttons3 = 0x0008)"
proof (intro conjI impI)
  show "dpad_of buttons3 = dpad_of (buttons3 AND 0x0F)"
    by (rule dpad_of_low_nibble)
  show "map dpad_of [0, 1, 2, 3, 4, 5, 6, 7] =
       [DPad_Up, DPad_UpRight, DPad_Right, DPad_DownRight,
        DPad_Down, DPad_DownLeft, DPad_Left, DPad_UpLeft]"
    by (rule dpad_table)
  show "dpad_of buttons3 = DPad_Neutral" if "8 \<le> buttons3 AND 0x0F"
    using that by (rule dpad_neutral)
  show "processInputReport_plain report reportLength =
          Some (print_buttons_plain (report ! 1) (report ! 2) (report ! 3)
                  (report ! 6) (report ! 8) (report ! 10) (report ! 12))"
    if "13 \<le> length report \<and> 3 \<le> reportLength"
    using that by (simp add: plain_total)
  show "print_buttons_plain 0x08 buttons2 buttons3 lx ly rx ry =
          [Buttons_DPad [Btn_A] (dpad_of buttons3)
             (stick_if_moved lx ly) (stick_if_moved rx ry)]"
    if "buttons2 AND 0x3F = 0 \<and> buttons3 AND 0x60 = 0"
    using that by (simp add: only_A_plain)
  show "update_buttons 0x08 buttons3 = 0x0008" if "buttons3 AND 0x60 = 0"
    using that by (rule only_A_neural)
qed



theorem dpad_and_button_A_witness:
  "processInputReport_plain
     [0x30, 0x08, 0x00, 0x08, 0x00, 0x00, 0x80, 0x00, 0x80, 0x00, 0x80, 0x00, 0x80, 0x00] 14 =
     Some [Buttons_DPad [Btn_A] DPad_Neutral None None]
   \<and> processInputReport_plain
     [0x30, 0x08, 0x00, 0x00, 0x00, 0x00, 0x80, 0x00, 0x80, 0x00, 0x80, 0x00, 0x80, 0x00] 14 =
     Some [Buttons_DPad [Btn_A] DPad_Up None None]
   \<and> dpad_of 0x0F = DPad_Neutral
   \<and> update_buttons 0x08 0x08 = 0x0008"
proof -
  let ?n = "[0x30, 0x08, 0x00, 0x08, 0x00, 0x00, 0x80, 0x00, 0x80, 0x00, 0x80, 0x00, 0x80, 0x00] :: u8 list"
  let ?u = "[0x30, 0x08, 0x00, 0x00, 0x00, 0x00, 0x80, 0x00, 0x80, 0x00, 0x80, 0x00, 0x80, 0x00] :: u8 list"
  note n = dpad_and_button_A [where report = ?n and reportLength = 14 and ?buttons2.0 = "0x00"
        and ?buttons3.0 = "0x08" and lx = "0x80" and ly = "0x80" and rx = "0x80" and ry = "0x80"]
  note u = dpad_and_button_A [where report = ?u and reportLength = 14 and ?buttons2.0 = "0x00"
        and ?buttons3.0 = "0x00" and lx = "0x80" and ly = "0x80" and rx = "0x80" and ry = "0x80"]
  note f = dpad_and_button_A [where ?buttons3.0 = "0x0F"]
  have up: "dpad_of 0 = DPad_Up"
    using u by simp
  have neutral: "dpad_of 0x08 = DPad_Neutral"
    using n by simp
  have len: "13 \<le> length ?n \<and> (3::int) \<le> 14" "13 \<le> length ?u \<and> (3::int) \<le> 14"
    by simp_all
  have "processInputReport_plain ?n 14 = Some (print_buttons_plain 0x08 0x00 0x08 0x80 0x80 0x80 0x80)"
    using n len(1) by simp
  moreover have "print_buttons_plain 0x08 0x00 0x08 0x80 0x80 0x80 0x80 =
      [Buttons_DPad [Btn_A] (dpad_of 0x08) (stick_if_moved 0x80 0x80) (stick_if_moved 0x80 0x80)]"
    using n by simp
  ultimately have a: "processInputReport_plain ?n 14 = Some [Buttons_DPad [Btn_A] DPad_Neutral None None]"
    by (simp add: neutral stick_if_moved_def)
  have "processInputReport_plain ?u 14 = Some (print_buttons_plain 0x08 0x00 0x00 0x80 0x80 0x80 0x80)"
    using u len(2) by simp
  moreover have "print_buttons_plain 0x08 0x00 0x00 0x80 0x80 0x80 0x80 =
      [Buttons_DPad [Btn_A] (dpad_of 0x00) (stick_if_moved 0x80 0x80) (stick_if_moved 0x80 0x80)]"
    using u by simp
  ultimately have b: "processInputReport_plain ?u 14 = Some [Buttons_DPad [Btn_A] DPad_Up None None]"
    by (simp add: up stick_if_moved_def)
  have c: "dpad_of 0x0F = DPad_Neutral"
    using f by simp
  have d: "update_buttons 0x08 0x08 = 0x0008"
    using n by simp
  from a b c d show ?thesis
    by blast
qed

section \<open>The time delta\<close>

lemma element_16:
  "fst (createFeatureVector s lastTs) ! 16 =
     (if lastTs > 0 then real (unat (timestamp s - lastTs)) / 1000000 else 0)"
  by (simp add: createFeatureVector_def Let_def)

lemma last_enqueued:
  assumes "processingEnabled d"
  shows "last (featureQueue (extractFeatures s d)) = fst (createFeatureVector s (lastTimestamp d))
         \<and> lastTimestamp (extractFeatures s d) = snd (createFeatureVector s (lastTimestamp d))"
proof -
  let ?v = "fst (createFeatureVector s (lastTimestamp d))"
  have t: "last (tl (featureQueue d @ [?v])) = ?v" if "100 \<le> length (featureQueue d)"
    using that by (cases "featureQueue d") simp_all
  have "last (featureQueue (extractFeatures s d)) = ?v"
    using t by (simp add: enqueue_eq [OF assms])
  moreover have "lastTimestamp (extractFeatures s d) = snd (createFeatureVector s (lastTimestamp d))"
    using assms by (simp add: extractFeatures_def Let_def split: prod.splits)
  ultimately show ?thesis
    by simp
qed

text \<open>
  C8, as the spec states it, at a restart: processing is enabled, a report arrives at
  1000000 microseconds, processing is disabled and enabled again, and a report arrives at
  5000000. The first sample after the restart would have time delta 0; it has 4 seconds,
  the distance to the last sample before the restart.
\<close>

theorem restart_keeps_previous_timestamp:
  "map_option newest_time_delta
     (run host_ok objc_unavailable
        [EnableNeuralProcessing True, InputReport 0 1000000 report_neutral 14,
         EnableNeuralProcessing False, EnableNeuralProcessing True,
         InputReport 0 5000000 report_neutral 14] (SwitchProController 0)) = Some 4"
  by (simp add: eval_defs newest_time_delta_def)

text \<open>
  C8, amended: element 16 of the derived vector is exactly 0 when the stored previous
  timestamp is 0, the value the static is initialised with. Each derived sample stores its
  own timestamp; constructing a controller keeps the stored timestamp, and so does enabling
  or disabling the pipeline, so the first sample of a restarted pipeline, or of a second
  controller, gets the time since the sample derived last. When the stored timestamp is
  positive and not later than the current one, element 16 is the current timestamp minus
  the stored one, in seconds (0.016 for 16 milliseconds). It is never negative.
\<close>

theorem time_delta:
  "0 \<le> fst (createFeatureVector s lastTs) ! 16
   \<and> (lastTs = 0 \<longrightarrow> fst (createFeatureVector s lastTs) ! 16 = 0)
   \<and> (0 < lastTs \<and> lastTs \<le> timestamp s \<longrightarrow>
        fst (createFeatureVector s lastTs) ! 16 =
          (real (unat (timestamp s)) - real (unat lastTs)) / 1000000)
   \<and> snd (createFeatureVector s lastTs) = timestamp s
   \<and> (processingEnabled d \<longrightarrow>
        last (featureQueue (extractFeatures s d)) = fst (createFeatureVector s (lastTimestamp d))
        \<and> lastTimestamp (extractFeatures s d) = timestamp s)
   \<and> fst (createFeatureVector s lastTimestamp_initial) ! 16 = 0
   \<and> lastTimestamp (SwitchProController prev) = prev
   \<and> lastTimestamp (enableNeuralProcessing enable d) = lastTimestamp d"
proof -
  have nonneg: "0 \<le> fst (createFeatureVector s lastTs) ! 16"
    by (simp add: element_16 del: of_nat_unat)
  have first: "lastTs = 0 \<longrightarrow> fst (createFeatureVector s lastTs) ! 16 = 0"
    by (simp add: element_16)
  have later: "fst (createFeatureVector s lastTs) ! 16 =
          (real (unat (timestamp s)) - real (unat lastTs)) / 1000000"
    if "0 < lastTs \<and> lastTs \<le> timestamp s"
  proof -
    from that have le: "unat lastTs \<le> unat (timestamp s)"
      by (simp add: word_le_nat_alt)
    from that have "unat (timestamp s - lastTs) = unat (timestamp s) - unat lastTs"
      by (simp add: unat_sub)
    then show ?thesis
      using that le by (simp add: element_16 del: of_nat_unat)
  qed
  have stored: "snd (createFeatureVector s lastTs) = timestamp s"
    by (simp add: createFeatureVector_def Let_def)
  have enq: "processingEnabled d \<longrightarrow>
        last (featureQueue (extractFeatures s d)) = fst (createFeatureVector s (lastTimestamp d))
        \<and> lastTimestamp (extractFeatures s d) = timestamp s"
    using last_enqueued [of d s] by (simp add: createFeatureVector_def Let_def)
  have init: "fst (createFeatureVector s lastTimestamp_initial) ! 16 = 0"
    by (simp add: element_16 lastTimestamp_initial_def)
  have ctor: "lastTimestamp (SwitchProController prev) = prev"
    by (simp add: SwitchProController_def)
  have restart: "lastTimestamp (enableNeuralProcessing enable d) = lastTimestamp d"
    by (simp add: enableNeuralProcessing_def Let_def)
  from nonneg first later stored enq init ctor restart show ?thesis
    by blast
qed

theorem time_delta_witness:
  "fst (createFeatureVector ((currentState (SwitchProController 0))\<lparr>timestamp := 1000000\<rparr>) 0) ! 16 = 0
   \<and> fst (createFeatureVector ((currentState (SwitchProController 0))\<lparr>timestamp := 1016000\<rparr>)
           1000000) ! 16 = 0.016
   \<and> last (featureQueue (extractFeatures
        ((currentState (SwitchProController 0))\<lparr>timestamp := 1016000\<rparr>)
        ((SwitchProController 0)\<lparr>processingEnabled := True, lastTimestamp := 1000000\<rparr>))) ! 16 = 0.016
   \<and> lastTimestamp (SwitchProController 1000000) = 1000000
   \<and> last (featureQueue (extractFeatures
        ((currentState (SwitchProController 1000000))\<lparr>timestamp := 5000000\<rparr>)
        (enableNeuralProcessing True (SwitchProController 1000000)))) ! 16 = 4"
proof -
  let ?sa = "(currentState (SwitchProController 0))\<lparr>timestamp := 1000000\<rparr>"
  let ?s = "(currentState (SwitchProController 0))\<lparr>timestamp := 1016000\<rparr>"
  let ?d = "(SwitchProController 0)\<lparr>processingEnabled := True, lastTimestamp := 1000000\<rparr>"
  let ?sb = "(currentState (SwitchProController 1000000))\<lparr>timestamp := 5000000\<rparr>"
  let ?db = "enableNeuralProcessing True (SwitchProController 1000000)"
  have h: "(0::u64) < 1000000 \<and> (1000000::u64) \<le> timestamp ?s" "processingEnabled ?d"
    by simp_all
  have h2: "(0::u64) < 1000000 \<and> (1000000::u64) \<le> timestamp ?sb" "processingEnabled ?db"
    by (simp_all add: enableNeuralProcessing_def Let_def)
  have first: "fst (createFeatureVector ?sa 0) ! 16 = 0"
    using time_delta [where s = ?sa and lastTs = 0] by simp
  have next16: "fst (createFeatureVector ?s 1000000) ! 16 = 0.016"
    "last (featureQueue (extractFeatures ?s ?d)) ! 16 = 0.016"
    using time_delta [where s = ?s and lastTs = 1000000 and d = ?d] h by simp_all
  have kept: "lastTimestamp (SwitchProController 1000000) = 1000000"
    "lastTimestamp ?db = 1000000"
    using time_delta [where prev = 1000000 and enable = True
        and d = "SwitchProController 1000000"] by simp_all
  have second: "last (featureQueue (extractFeatures ?sb ?db)) ! 16 = 4"
    using time_delta [where s = ?sb and lastTs = 1000000 and d = ?db] h2 kept(2) by simp
  show ?thesis
    by (intro conjI) (rule first next16 kept(1) second)+
qed

section \<open>End to end\<close>

text \<open>
  C1, at three reports of 14 bytes (no button; A and B, bits \<open>0x08\<close> and \<open>0x04\<close> of byte
  1; no button) processed with the pipeline enabled and then consumed by three turns of the
  loop, whatever timestamp is stored at the start: the three vectors reach the engine in
  order, and their elements 6 to 13 are all 0,
  then 0, 0, 1, 1, 0, 0, 0, 0, then all 0. A and B raise elements 9 and 8, which
  \<open>createFeatureVector\<close> labels Y and X, and not elements 6 and 7, which it labels A and
  B: \<open>processInputReport\<close> stores Y, X, B, A in the bits \<open>0x0001\<close> to \<open>0x0008\<close>.
\<close>

theorem A_and_B_raise_flags_8_and_9:
  "map_option (map (take 8 \<circ> drop 6) \<circ> classified)
     (run host_ok objc_unavailable
        [EnableNeuralProcessing True,
         InputReport 0 1000000 report_neutral 14,
         InputReport 0 1016000 report_A_B 14,
         InputReport 0 1032000 report_neutral 14,
         LoopTurn, LoopTurn, LoopTurn] (SwitchProController prev)) =
     Some [[0, 0, 0, 0, 0, 0, 0, 0], [0, 0, 1, 1, 0, 0, 0, 0], [0, 0, 0, 0, 0, 0, 0, 0]]"
  by (simp add: eval_defs)

end
